theory Spec2Isabelle
  imports Main
begin

section \<open>Data model\<close>

text \<open>
  Go's \<^verbatim>\<open>map[string]string\<close>: a finite partial map. Reading a key that is absent (also from
  a nil map) gives the zero value of the element type, the empty string, and never fails.
\<close>

type_synonym headers = "string \<rightharpoonup> string"

definition index :: "headers \<Rightarrow> string \<Rightarrow> string" where
  "index m k = (case m k of None \<Rightarrow> [] | Some v \<Rightarrow> v)"

text \<open>\<^verbatim>\<open>kafka.FTMessage\<close>, as the handler uses it: a header map and a body.\<close>

record FTMessage =
  Headers :: headers
  Body :: string

text \<open>
  A Go slice is nil or holds a sequence of elements. \<^verbatim>\<open>range\<close> visits the elements of either
  (none for nil), \<^verbatim>\<open>append\<close> never gives nil.
\<close>

datatype 'a slice = NilSlice | Slice "'a list"

fun elems :: "'a slice \<Rightarrow> 'a list" where
  "elems NilSlice = []"
| "elems (Slice xs) = xs"

fun append_slice :: "'a slice \<Rightarrow> 'a \<Rightarrow> 'a slice" where
  "append_slice NilSlice x = Slice [x]"
| "append_slice (Slice xs) x = Slice (xs @ [x])"

text \<open>
  Modelled from the spec: the struct declarations \<^verbatim>\<open>PacMetadataPublishEvent\<close>,
  \<^verbatim>\<open>PacMetadataAnnotation\<close>, \<^verbatim>\<open>ConceptAnnotations\<close>, \<^verbatim>\<open>annotation\<close> and \<^verbatim>\<open>thing\<close> are
  used by the handler but declared in another file of the package. Their fields are the
  ones the handler reads and writes; the data model of the specification gives the same
  shapes.
\<close>

record PacMetadataAnnotation =
  ConceptId :: string
  Predicate :: string

record PacMetadataPublishEvent =
  UUID :: string
  Annotations :: "PacMetadataAnnotation slice"

record thing =
  ID :: string
  Predicate :: string

record annotation =
  Thing :: thing

record ConceptAnnotations =
  UUID :: string
  Annotations :: "annotation slice"

text \<open>
  Go's \<^verbatim>\<open>error\<close> values that can reach the handler: the two kinds of failure of
  \<^verbatim>\<open>json.Unmarshal\<close>, a failure of \<^verbatim>\<open>json.Marshal\<close>, and whatever the producer reports.
  \<^verbatim>\<open>nil\<close> is \<open>None\<close> of \<open>error option\<close>.
\<close>

datatype error =
    SyntaxError
  | UnmarshalTypeError
  | MarshalError string
  | ProducerError string

section \<open>The predicate table\<close>

definition predicates :: "string \<rightharpoonup> string" where
  "predicates = map_of
    [(''http://www.ft.com/ontology/classification/isClassifiedBy'', ''isClassifiedBy''),
     (''http://www.ft.com/ontology/annotation/hasAuthor'', ''hasAuthor''),
     (''http://www.ft.com/ontology/annotation/hasContributor'', ''hasContributor''),
     (''http://www.ft.com/ontology/annotation/about'', ''about''),
     (''http://www.ft.com/ontology/annotation/hasDisplayTag'', ''hasDisplayTag''),
     (''http://www.ft.com/ontology/annotation/mentions'', ''mentions'')]"

section \<open>buildAnnotation\<close>

text \<open>The returned pointer is \<open>None\<close> when nil, \<open>Some\<close> of the pointed-to value otherwise.\<close>

definition buildAnnotation :: "PacMetadataAnnotation \<Rightarrow> annotation option" where
  "buildAnnotation metadata =
     (case predicates (PacMetadataAnnotation.Predicate metadata) of
        Some predicate \<Rightarrow>
          Some \<lparr>Thing = \<lparr>ID = ConceptId metadata, Predicate = predicate\<rparr>\<rparr>
      | None \<Rightarrow> None)"

section \<open>Collaborators\<close>

text \<open>
  The service holds the compiled whitelist pattern and the producer. Of the pattern the
  handler uses \<^verbatim>\<open>MatchString\<close> only, so the pattern is the set of strings it matches. The
  producer is an interface value with a state of its own (type \<open>'p\<close>): \<^verbatim>\<open>SendMessage\<close> takes
  that state and the message, and gives nil or an error and the next state.
\<close>

record 'p AnnotationMapperService =
  whitelist :: "string \<Rightarrow> bool"
  messageProducer :: "'p \<Rightarrow> FTMessage \<Rightarrow> error option \<times> 'p"

text \<open>
  \<^verbatim>\<open>json.Unmarshal\<close> into a \<^verbatim>\<open>PacMetadataPublishEvent\<close> and \<^verbatim>\<open>json.Marshal\<close> of a
  \<^verbatim>\<open>ConceptAnnotations\<close> belong to Go's library. The handler is modelled for any behaviour
  of the two; Go's own is given further down.
\<close>

record encoding_json =
  Unmarshal :: "string \<Rightarrow> error + PacMetadataPublishEvent"
  Marshal :: "ConceptAnnotations \<Rightarrow> error + string"

text \<open>
  \<^verbatim>\<open>time.Time\<close> as \<^verbatim>\<open>Format\<close> reads it: the civil date and the clock of the instant in the
  location of the value, and the offset of that location, in seconds east of UTC. For
  \<^verbatim>\<open>time.Now()\<close> the location is the local zone of the process. The handler does not convert
  the reading to another zone. The fields of the date and the clock are natural numbers:
  the clock of a running process does not read a year before 0.
\<close>

record Time =
  year :: nat
  month :: nat
  day :: nat
  hour :: nat
  minute :: nat
  second :: nat
  nanosecond :: nat
  offset :: int

text \<open>What a log call records: its level, the fields of the entry and the arguments.\<close>

datatype level = InfoLevel | WarnLevel | ErrorLevel

datatype field = Text string | Metadata PacMetadataAnnotation

datatype arg = Str string | Err error

type_synonym entry = "(string \<times> field) list"

record line =
  level :: level
  entry :: entry
  args :: "arg list"

text \<open>
  Everything outside the handler that a call reads or changes: the UUID generator (the
  strings of the UUIDs it yields, in order, and how many were taken), the clock (its
  readings, and how many were taken), the state of the producer, the messages
  \<^verbatim>\<open>SendMessage\<close> was called with, and the log.
\<close>

record 'p world =
  uuids :: "nat \<Rightarrow> string"
  uuids_taken :: nat
  clock :: "nat \<Rightarrow> Time"
  clock_read :: nat
  producer :: 'p
  sent :: "FTMessage list"
  logged :: "line list"

definition WithField :: "entry \<Rightarrow> string \<Rightarrow> field \<Rightarrow> entry" where
  "WithField requestLog k v = requestLog @ [(k, v)]"

definition log_call :: "level \<Rightarrow> entry \<Rightarrow> arg list \<Rightarrow> 'p world \<Rightarrow> 'p world" where
  "log_call l requestLog as w =
     w\<lparr>logged := logged w @ [\<lparr>level = l, entry = requestLog, args = as\<rparr>]\<rparr>"

definition NewV4_String :: "'p world \<Rightarrow> string \<times> 'p world" where
  "NewV4_String w = (uuids w (uuids_taken w), w\<lparr>uuids_taken := Suc (uuids_taken w)\<rparr>)"

definition Now :: "'p world \<Rightarrow> Time \<times> 'p world" where
  "Now w = (clock w (clock_read w), w\<lparr>clock_read := Suc (clock_read w)\<rparr>)"

definition SendMessage ::
  "'p AnnotationMapperService \<Rightarrow> FTMessage \<Rightarrow> 'p world \<Rightarrow> error option \<times> 'p world" where
  "SendMessage mapper message w =
     (let (r, p) = messageProducer mapper (producer w) message
      in (r, w\<lparr>producer := p, sent := sent w @ [message]\<rparr>))"

section \<open>Formatting the timestamp\<close>

definition messageTimestampDateFormat :: string where
  "messageTimestampDateFormat = ''2006-01-02T15:04:05.000Z''"

fun decimal :: "nat \<Rightarrow> string" where
  "decimal n =
     (if n < 10 then [''0123456789'' ! n]
      else decimal (n div 10) @ [''0123456789'' ! (n mod 10)])"

declare decimal.simps [simp del]

text \<open>\<^verbatim>\<open>appendInt\<close> of package time, for a value that is not negative: zero-padded to the width.\<close>

definition appendInt :: "nat \<Rightarrow> nat \<Rightarrow> string" where
  "appendInt x width = replicate (width - length (decimal x)) (CHR ''0'') @ decimal x"

definition isDigit :: "char \<Rightarrow> bool" where
  "isDigit c = (c \<in> set ''0123456789'')"

text \<open>
  \<^verbatim>\<open>Time.Format\<close>, for the layout elements of the constant above: \<^verbatim>\<open>2006\<close>, \<^verbatim>\<open>01\<close>, \<^verbatim>\<open>02\<close>,
  \<^verbatim>\<open>15\<close>, \<^verbatim>\<open>04\<close>, \<^verbatim>\<open>05\<close> and \<^verbatim>\<open>.000\<close> (three zeros that no digit follows). Every other
  character of a layout is copied; so is the final \<^verbatim>\<open>Z\<close>, which is a zone element only when
  \<^verbatim>\<open>07\<close> follows it. Layout elements that the constant does not use are not modelled.
  \<open>format_head\<close> gives what the element at the head of the layout prints and how many
  characters of the layout it takes.
\<close>

definition format_head :: "Time \<Rightarrow> char \<Rightarrow> string \<Rightarrow> string \<times> nat" where
  "format_head t c l =
     (if c = CHR ''2'' \<and> take 3 l = ''006'' then (appendInt (year t) 4, 4)
      else if c = CHR ''0'' \<and> take 1 l = ''1'' then (appendInt (month t) 2, 2)
      else if c = CHR ''0'' \<and> take 1 l = ''2'' then (appendInt (day t) 2, 2)
      else if c = CHR ''0'' \<and> take 1 l = ''4'' then (appendInt (minute t) 2, 2)
      else if c = CHR ''0'' \<and> take 1 l = ''5'' then (appendInt (second t) 2, 2)
      else if c = CHR ''1'' \<and> take 1 l = ''5'' then (appendInt (hour t) 2, 2)
      else if c = CHR ''.'' \<and> take 3 l = ''000'' \<and> \<not> list_ex isDigit (take 1 (drop 3 l))
        then (CHR ''.'' # take 3 (appendInt (nanosecond t) 9), 4)
      else ([c], 1))"

fun Format :: "Time \<Rightarrow> string \<Rightarrow> string" where
  "Format t [] = []"
| "Format t (c # l) = fst (format_head t c l) @ Format t (drop (snd (format_head t c l) - 1) l)"

section \<open>Go's encoding/json on the event and on the envelope\<close>

text \<open>
  \<^verbatim>\<open>json.Unmarshal\<close> first checks that the whole input is one well-formed JSON text, and
  fails with a syntax error otherwise; then it stores the value into the struct, and fails
  with a type error where a member that names a field holds a value of the wrong kind.
  The model keeps the kind of an error; its message and offset are not modelled, nor is the
  limit of 10000 on nesting.
\<close>

datatype json =
    JNull
  | JBool bool
  | JNumber string
  | JString string
  | JArray "json list"
  | JObject "(string \<times> json) list"

subsection \<open>Strings\<close>

definition quote :: char where
  "quote = CHR 0x22"

definition backslash :: char where
  "backslash = CHR 0x5C"

definition byte :: "char \<Rightarrow> nat" where
  "byte c = of_char c"

definition isSpace :: "char \<Rightarrow> bool" where
  "isSpace c = (c = CHR '' '' \<or> c = CHR 0x09 \<or> c = CHR 0x0A \<or> c = CHR 0x0D)"

definition hexval :: "char \<Rightarrow> nat option" where
  "hexval c = map_of (zip ''0123456789abcdefABCDEF''
     [0, 1, 2, 3, 4, 5, 6, 7, 8, 9, 10, 11, 12, 13, 14, 15, 10, 11, 12, 13, 14, 15]) c"

definition hexdigit :: "nat \<Rightarrow> char" where
  "hexdigit n = ''0123456789abcdef'' ! n"

text \<open>
  The number of bytes of the UTF-8 sequence at the head of a byte string, 0 when the bytes
  there are not well-formed UTF-8 (\<^verbatim>\<open>utf8.DecodeRune\<close> then gives the replacement character
  and a width of 1).
\<close>

fun runeLen :: "nat list \<Rightarrow> nat" where
  "runeLen [] = 0"
| "runeLen (b0 # r) =
     (if b0 < 0x80 then 1
      else if 0xC2 \<le> b0 \<and> b0 \<le> 0xDF then
        (case r of
           b1 # _ \<Rightarrow> if 0x80 \<le> b1 \<and> b1 \<le> 0xBF then 2 else 0
         | _ \<Rightarrow> 0)
      else if 0xE0 \<le> b0 \<and> b0 \<le> 0xEF then
        (case r of
           b1 # b2 # _ \<Rightarrow>
             if (if b0 = 0xE0 then 0xA0 else 0x80) \<le> b1 \<and>
                b1 \<le> (if b0 = 0xED then 0x9F else 0xBF) \<and>
                0x80 \<le> b2 \<and> b2 \<le> 0xBF
             then 3 else 0
         | _ \<Rightarrow> 0)
      else if 0xF0 \<le> b0 \<and> b0 \<le> 0xF4 then
        (case r of
           b1 # b2 # b3 # _ \<Rightarrow>
             if (if b0 = 0xF0 then 0x90 else 0x80) \<le> b1 \<and>
                b1 \<le> (if b0 = 0xF4 then 0x8F else 0xBF) \<and>
                0x80 \<le> b2 \<and> b2 \<le> 0xBF \<and> 0x80 \<le> b3 \<and> b3 \<le> 0xBF
             then 4 else 0
         | _ \<Rightarrow> 0)
      else 0)"

text \<open>\<^verbatim>\<open>utf8.EncodeRune\<close>: a surrogate or a value above U+10FFFF is written as U+FFFD.\<close>

definition encodeRune :: "nat \<Rightarrow> string" where
  "encodeRune r =
     (if r < 0x80 then [char_of r]
      else if r < 0x800 then [char_of (0xC0 + r div 64), char_of (0x80 + r mod 64)]
      else if (0xD800 \<le> r \<and> r \<le> 0xDFFF) \<or> 0x10FFFF < r then
        [CHR 0xEF, CHR 0xBF, CHR 0xBD]
      else if r < 0x10000 then
        [char_of (0xE0 + r div 4096), char_of (0x80 + r div 64 mod 64), char_of (0x80 + r mod 64)]
      else
        [char_of (0xF0 + r div 262144), char_of (0x80 + r div 4096 mod 64),
         char_of (0x80 + r div 64 mod 64), char_of (0x80 + r mod 64)])"

text \<open>\<^verbatim>\<open>getu4\<close>: the value of \<^verbatim>\<open>\uXXXX\<close> at the head of the string, if that is what is there.\<close>

definition getu4 :: "string \<Rightarrow> nat option" where
  "getu4 s =
     (case s of
        e # u # a # b # c # d # _ \<Rightarrow>
          if e = backslash \<and> u = CHR ''u'' then
            (case (hexval a, hexval b, hexval c, hexval d) of
               (Some x3, Some x2, Some x1, Some x0) \<Rightarrow> Some (x3 * 4096 + x2 * 256 + x1 * 16 + x0)
             | _ \<Rightarrow> None)
          else None
      | _ \<Rightarrow> None)"

definition unescape :: "char \<Rightarrow> char" where
  "unescape c =
     (if c = CHR ''b'' then CHR 0x08
      else if c = CHR ''f'' then CHR 0x0C
      else if c = CHR ''n'' then CHR 0x0A
      else if c = CHR ''r'' then CHR 0x0D
      else if c = CHR ''t'' then CHR 0x09
      else c)"

text \<open>
  \<^verbatim>\<open>unquote\<close>, on the inside of a string literal that the scanner has accepted: escapes are
  replaced, a surrogate escape is joined with a low surrogate escape that follows it and
  is U+FFFD otherwise, and a byte that does not begin well-formed UTF-8 becomes U+FFFD.
  \<open>unquote_head\<close> gives the bytes that the head of the literal stands for and how many
  bytes of the literal it takes.
\<close>

definition unquote_head :: "char \<Rightarrow> string \<Rightarrow> string \<times> nat" where
  "unquote_head c cs =
     (if c = backslash then
        (if take 1 cs = ''u'' then
           (case getu4 (c # cs) of
              None \<Rightarrow> ([], 6)
            | Some rr \<Rightarrow>
                if 0xD800 \<le> rr \<and> rr \<le> 0xDFFF then
                  (case getu4 (drop 5 cs) of
                     None \<Rightarrow> (encodeRune 0xFFFD, 6)
                   | Some rr1 \<Rightarrow>
                       if rr \<le> 0xDBFF \<and> 0xDC00 \<le> rr1 \<and> rr1 \<le> 0xDFFF then
                         (encodeRune ((rr - 0xD800) * 1024 + (rr1 - 0xDC00) + 0x10000), 12)
                       else (encodeRune 0xFFFD, 6))
                else (encodeRune rr, 6))
         else (map unescape (take 1 cs), 2))
      else if byte c < 0x80 then ([c], 1)
      else if runeLen (map byte (take 4 (c # cs))) = 0 then (encodeRune 0xFFFD, 1)
      else (take (runeLen (map byte (take 4 (c # cs)))) (c # cs),
            runeLen (map byte (take 4 (c # cs)))))"

fun unquote :: "string \<Rightarrow> string" where
  "unquote [] = []"
| "unquote (c # cs) = fst (unquote_head c cs) @ unquote (drop (snd (unquote_head c cs) - 1) cs)"

subsection \<open>The scanner\<close>

datatype token = LBrace | RBrace | LBrack | RBrack | Colon | Comma | Atom json

datatype frame = FArr "json list" | FObj "(string \<times> json) list" "string option"

datatype expect = EValue | EValueOrEnd | EKeyOrEnd | EKey | EColon | ECommaOrEnd | EDone

type_synonym pstate = "expect \<times> frame list \<times> json option"

fun complete :: "json \<Rightarrow> frame list \<Rightarrow> pstate option" where
  "complete v [] = Some (EDone, [], Some v)"
| "complete v (FArr xs # st) = Some (ECommaOrEnd, FArr (xs @ [v]) # st, None)"
| "complete v (FObj ms (Some k) # st) = Some (ECommaOrEnd, FObj (ms @ [(k, v)]) None # st, None)"
| "complete v (FObj ms None # st) = None"

fun feed :: "pstate \<Rightarrow> token \<Rightarrow> pstate option" where
  "feed (e, st, r) (Atom v) =
     (if e = EValue \<or> e = EValueOrEnd then complete v st
      else if e = EKeyOrEnd \<or> e = EKey then
        (case v of
           JString k \<Rightarrow>
             (case st of
                FObj ms None # st' \<Rightarrow> Some (EColon, FObj ms (Some k) # st', None)
              | _ \<Rightarrow> None)
         | _ \<Rightarrow> None)
      else None)"
| "feed (e, st, r) LBrack =
     (if e = EValue \<or> e = EValueOrEnd then Some (EValueOrEnd, FArr [] # st, None) else None)"
| "feed (e, st, r) LBrace =
     (if e = EValue \<or> e = EValueOrEnd then Some (EKeyOrEnd, FObj [] None # st, None) else None)"
| "feed (e, st, r) Colon = (if e = EColon then Some (EValue, st, None) else None)"
| "feed (e, st, r) Comma =
     (if e = ECommaOrEnd then
        (case st of
           FArr xs # _ \<Rightarrow> Some (EValue, st, None)
         | FObj ms None # _ \<Rightarrow> Some (EKey, st, None)
         | _ \<Rightarrow> None)
      else None)"
| "feed (e, st, r) RBrack =
     (if e = EValueOrEnd \<or> e = ECommaOrEnd then
        (case st of FArr xs # st' \<Rightarrow> complete (JArray xs) st' | _ \<Rightarrow> None)
      else None)"
| "feed (e, st, r) RBrace =
     (if e = EKeyOrEnd \<or> e = ECommaOrEnd then
        (case st of FObj ms None # st' \<Rightarrow> complete (JObject ms) st' | _ \<Rightarrow> None)
      else None)"

datatype num = NNeg | N0 | N1 | NDot | NDot0 | NE | NESign | NE0

datatype lex =
    Idle
  | InString string
  | InEscape string
  | InHex string nat
  | InNumber num string
  | InLiteral string json

fun num_step :: "num \<Rightarrow> char \<Rightarrow> num option" where
  "num_step NNeg c = (if c = CHR ''0'' then Some N0 else if isDigit c then Some N1 else None)"
| "num_step N1 c =
     (if isDigit c then Some N1
      else if c = CHR ''.'' then Some NDot
      else if c = CHR ''e'' \<or> c = CHR ''E'' then Some NE
      else None)"
| "num_step N0 c =
     (if c = CHR ''.'' then Some NDot
      else if c = CHR ''e'' \<or> c = CHR ''E'' then Some NE
      else None)"
| "num_step NDot c = (if isDigit c then Some NDot0 else None)"
| "num_step NDot0 c =
     (if isDigit c then Some NDot0
      else if c = CHR ''e'' \<or> c = CHR ''E'' then Some NE
      else None)"
| "num_step NE c =
     (if c = CHR ''+'' \<or> c = CHR ''-'' then Some NESign
      else if isDigit c then Some NE0
      else None)"
| "num_step NESign c = (if isDigit c then Some NE0 else None)"
| "num_step NE0 c = (if isDigit c then Some NE0 else None)"

fun accepting :: "num \<Rightarrow> bool" where
  "accepting N0 = True"
| "accepting N1 = True"
| "accepting NDot0 = True"
| "accepting NE0 = True"
| "accepting _ = False"

definition emit :: "pstate \<Rightarrow> token \<Rightarrow> (lex \<times> pstate) option" where
  "emit ps t = (case feed ps t of None \<Rightarrow> None | Some ps' \<Rightarrow> Some (Idle, ps'))"

definition idle :: "pstate \<Rightarrow> char \<Rightarrow> (lex \<times> pstate) option" where
  "idle ps c =
     (if isSpace c then Some (Idle, ps)
      else if c = CHR ''{'' then emit ps LBrace
      else if c = CHR ''}'' then emit ps RBrace
      else if c = CHR ''['' then emit ps LBrack
      else if c = CHR '']'' then emit ps RBrack
      else if c = CHR '':'' then emit ps Colon
      else if c = CHR '','' then emit ps Comma
      else if c = quote then Some (InString [], ps)
      else if c = CHR ''-'' then Some (InNumber NNeg [c], ps)
      else if c = CHR ''0'' then Some (InNumber N0 [c], ps)
      else if isDigit c then Some (InNumber N1 [c], ps)
      else if c = CHR ''t'' then Some (InLiteral ''rue'' (JBool True), ps)
      else if c = CHR ''f'' then Some (InLiteral ''alse'' (JBool False), ps)
      else if c = CHR ''n'' then Some (InLiteral ''ull'' JNull, ps)
      else None)"

fun step :: "lex \<times> pstate \<Rightarrow> char \<Rightarrow> (lex \<times> pstate) option" where
  "step (Idle, ps) c = idle ps c"
| "step (InString s, ps) c =
     (if c = quote then emit ps (Atom (JString (unquote s)))
      else if c = backslash then Some (InEscape (s @ [c]), ps)
      else if byte c < 0x20 then None
      else Some (InString (s @ [c]), ps))"
| "step (InEscape s, ps) c =
     (if c = CHR ''u'' then Some (InHex (s @ [c]) 4, ps)
      else if c \<in> set ''bfnrt/'' \<or> c = backslash \<or> c = quote then Some (InString (s @ [c]), ps)
      else None)"
| "step (InHex s n, ps) c =
     (if hexval c = None then None
      else if n \<le> 1 then Some (InString (s @ [c]), ps)
      else Some (InHex (s @ [c]) (n - 1), ps))"
| "step (InNumber n s, ps) c =
     (case num_step n c of
        Some n' \<Rightarrow> Some (InNumber n' (s @ [c]), ps)
      | None \<Rightarrow>
          if accepting n then
            (case feed ps (Atom (JNumber s)) of None \<Rightarrow> None | Some ps' \<Rightarrow> idle ps' c)
          else None)"
| "step (InLiteral rest v, ps) c =
     (case rest of
        [] \<Rightarrow> None
      | r # rs \<Rightarrow>
          if c \<noteq> r then None
          else if rs = [] then emit ps (Atom v)
          else Some (InLiteral rs v, ps))"

fun scan :: "string \<Rightarrow> lex \<times> pstate \<Rightarrow> (lex \<times> pstate) option" where
  "scan [] st = Some st"
| "scan (c # cs) st = (case step st c of None \<Rightarrow> None | Some st' \<Rightarrow> scan cs st')"

fun finish :: "lex \<times> pstate \<Rightarrow> json option" where
  "finish (Idle, e, st, r) = (if e = EDone then r else None)"
| "finish (InNumber n s, ps) =
     (if accepting n then
        (case feed ps (Atom (JNumber s)) of
           Some (e, st, r) \<Rightarrow> (if e = EDone then r else None)
         | None \<Rightarrow> None)
      else None)"
| "finish _ = None"

definition parse :: "string \<Rightarrow> json option" where
  "parse data = (case scan data (Idle, EValue, [], None) of None \<Rightarrow> None | Some st \<Rightarrow> finish st)"

subsection \<open>Storing a value into the event\<close>

text \<open>
  Modelled from the spec: the JSON names of the fields are part of the struct declarations,
  which are in another file of the package. The interfaces of the specification name them \<^verbatim>\<open>uuid\<close>,
  \<^verbatim>\<open>annotations\<close>, \<^verbatim>\<open>conceptId\<close> and \<^verbatim>\<open>predicate\<close> on the way in, and \<^verbatim>\<open>uuid\<close>,
  \<^verbatim>\<open>annotations\<close>, \<^verbatim>\<open>thing\<close>, \<^verbatim>\<open>id\<close> and \<^verbatim>\<open>predicate\<close> on the way out, none of them
  omitted when empty.

  A member names a field when its key is the name, or is the name up to the case of ASCII
  letters (the two letters outside ASCII that Go folds onto \<^verbatim>\<open>s\<close> and \<^verbatim>\<open>k\<close> are not
  modelled). Other members are skipped. \<^verbatim>\<open>null\<close> leaves a string or a struct as it is and
  makes a slice nil. A later member with the same key is stored into what the earlier one
  left; for a slice that is the elements below its length.
\<close>

definition lower :: "char \<Rightarrow> char" where
  "lower c = (if 0x41 \<le> byte c \<and> byte c \<le> 0x5A then char_of (byte c + 32) else c)"

definition names :: "string \<Rightarrow> string \<Rightarrow> bool" where
  "names key name = (if key = name then True else map lower key = map lower name)"

fun store_string :: "string \<Rightarrow> json \<Rightarrow> error + string" where
  "store_string cur (JString s) = Inr s"
| "store_string cur JNull = Inr cur"
| "store_string cur _ = Inl UnmarshalTypeError"

fun store_annotation_members ::
  "PacMetadataAnnotation \<Rightarrow> (string \<times> json) list \<Rightarrow> error + PacMetadataAnnotation" where
  "store_annotation_members cur [] = Inr cur"
| "store_annotation_members cur ((key, v) # ms) =
     (if names key ''conceptId'' then
        (case store_string (ConceptId cur) v of
           Inl err \<Rightarrow> Inl err
         | Inr s \<Rightarrow> store_annotation_members (cur\<lparr>ConceptId := s\<rparr>) ms)
      else if names key ''predicate'' then
        (case store_string (PacMetadataAnnotation.Predicate cur) v of
           Inl err \<Rightarrow> Inl err
         | Inr s \<Rightarrow> store_annotation_members (cur\<lparr>PacMetadataAnnotation.Predicate := s\<rparr>) ms)
      else store_annotation_members cur ms)"

fun store_annotation :: "PacMetadataAnnotation \<Rightarrow> json \<Rightarrow> error + PacMetadataAnnotation" where
  "store_annotation cur (JObject ms) = store_annotation_members cur ms"
| "store_annotation cur JNull = Inr cur"
| "store_annotation cur _ = Inl UnmarshalTypeError"

fun store_elements ::
  "PacMetadataAnnotation list \<Rightarrow> json list \<Rightarrow> error + PacMetadataAnnotation list" where
  "store_elements cur [] = Inr []"
| "store_elements cur (v # vs) =
     (case store_annotation
             (case cur of [] \<Rightarrow> \<lparr>ConceptId = [], Predicate = []\<rparr> | a # _ \<Rightarrow> a) v of
        Inl err \<Rightarrow> Inl err
      | Inr a \<Rightarrow>
          (case store_elements (drop 1 cur) vs of
             Inl err \<Rightarrow> Inl err
           | Inr as \<Rightarrow> Inr (a # as)))"

fun store_annotations ::
  "PacMetadataAnnotation slice \<Rightarrow> json \<Rightarrow> error + PacMetadataAnnotation slice" where
  "store_annotations cur (JArray vs) =
     (case store_elements (elems cur) vs of Inl err \<Rightarrow> Inl err | Inr as \<Rightarrow> Inr (Slice as))"
| "store_annotations cur JNull = Inr NilSlice"
| "store_annotations cur _ = Inl UnmarshalTypeError"

fun store_event_members ::
  "PacMetadataPublishEvent \<Rightarrow> (string \<times> json) list \<Rightarrow> error + PacMetadataPublishEvent" where
  "store_event_members cur [] = Inr cur"
| "store_event_members cur ((key, v) # ms) =
     (if names key ''uuid'' then
        (case store_string (PacMetadataPublishEvent.UUID cur) v of
           Inl err \<Rightarrow> Inl err
         | Inr s \<Rightarrow> store_event_members (cur\<lparr>PacMetadataPublishEvent.UUID := s\<rparr>) ms)
      else if names key ''annotations'' then
        (case store_annotations (PacMetadataPublishEvent.Annotations cur) v of
           Inl err \<Rightarrow> Inl err
         | Inr as \<Rightarrow> store_event_members (cur\<lparr>PacMetadataPublishEvent.Annotations := as\<rparr>) ms)
      else store_event_members cur ms)"

fun store_event :: "PacMetadataPublishEvent \<Rightarrow> json \<Rightarrow> error + PacMetadataPublishEvent" where
  "store_event cur (JObject ms) = store_event_members cur ms"
| "store_event cur JNull = Inr cur"
| "store_event cur _ = Inl UnmarshalTypeError"

text \<open>The handler unmarshals into a variable that holds the zero value of the struct.\<close>

definition json_Unmarshal :: "string \<Rightarrow> error + PacMetadataPublishEvent" where
  "json_Unmarshal data =
     (case parse data of
        None \<Rightarrow> Inl SyntaxError
      | Some v \<Rightarrow>
          store_event \<lparr>PacMetadataPublishEvent.UUID = [], PacMetadataPublishEvent.Annotations = NilSlice\<rparr> v)"

subsection \<open>Marshalling the envelope\<close>

text \<open>
  A string is written between quotes, with a backslash before a quote or a backslash, with
  \<^verbatim>\<open>\n\<close>, \<^verbatim>\<open>\r\<close> and \<^verbatim>\<open>\t\<close> for these three, and with \<^verbatim>\<open>\u00XX\<close> for the other control
  characters and for \<^verbatim>\<open><\<close>, \<^verbatim>\<open>>\<close> and \<^verbatim>\<open>&\<close>; U+2028 and U+2029 are escaped, and a byte that
  does not begin well-formed UTF-8 is written as the escape of U+FFFD. \<open>encode_head\<close>
  gives what is written for the head of the string and how many of its bytes that covers.
\<close>

definition encode_head :: "char \<Rightarrow> string \<Rightarrow> string \<times> nat" where
  "encode_head c cs =
     (if byte c < 0x80 then
        (if c = quote \<or> c = backslash then ([backslash, c], 1)
         else if c = CHR 0x0A then ([backslash, CHR ''n''], 1)
         else if c = CHR 0x0D then ([backslash, CHR ''r''], 1)
         else if c = CHR 0x09 then ([backslash, CHR ''t''], 1)
         else if byte c < 0x20 \<or> c = CHR ''<'' \<or> c = CHR ''>'' \<or> c = CHR ''&'' then
           ([backslash, CHR ''u'', CHR ''0'', CHR ''0'', hexdigit (byte c div 16),
             hexdigit (byte c mod 16)], 1)
         else ([c], 1))
      else if runeLen (map byte (take 4 (c # cs))) = 0 then (backslash # ''ufffd'', 1)
      else if take 3 (c # cs) = [CHR 0xE2, CHR 0x80, CHR 0xA8] then (backslash # ''u2028'', 3)
      else if take 3 (c # cs) = [CHR 0xE2, CHR 0x80, CHR 0xA9] then (backslash # ''u2029'', 3)
      else (take (runeLen (map byte (take 4 (c # cs)))) (c # cs),
            runeLen (map byte (take 4 (c # cs)))))"

fun encode_string :: "string \<Rightarrow> string" where
  "encode_string [] = []"
| "encode_string (c # cs) =
     fst (encode_head c cs) @ encode_string (drop (snd (encode_head c cs) - 1) cs)"

definition marshal_string :: "string \<Rightarrow> string" where
  "marshal_string s = quote # encode_string s @ [quote]"

definition marshal_thing :: "thing \<Rightarrow> string" where
  "marshal_thing t =
     ''{'' @ marshal_string ''id'' @ '':'' @ marshal_string (ID t) @ '','' @
     marshal_string ''predicate'' @ '':'' @ marshal_string (thing.Predicate t) @ ''}''"

definition marshal_annotation :: "annotation \<Rightarrow> string" where
  "marshal_annotation a = ''{'' @ marshal_string ''thing'' @ '':'' @ marshal_thing (Thing a) @ ''}''"

fun commas :: "string list \<Rightarrow> string" where
  "commas [] = []"
| "commas [x] = x"
| "commas (x # xs) = x @ '','' @ commas xs"

fun marshal_annotations :: "annotation slice \<Rightarrow> string" where
  "marshal_annotations NilSlice = ''null''"
| "marshal_annotations (Slice as) = ''['' @ commas (map marshal_annotation as) @ '']''"

definition json_Marshal :: "ConceptAnnotations \<Rightarrow> error + string" where
  "json_Marshal v =
     Inr (''{'' @ marshal_string ''uuid'' @ '':'' @ marshal_string (ConceptAnnotations.UUID v) @ '','' @
          marshal_string ''annotations'' @ '':'' @
          marshal_annotations (ConceptAnnotations.Annotations v) @ ''}'')"

definition go_json :: encoding_json where
  "go_json = \<lparr>Unmarshal = json_Unmarshal, Marshal = json_Marshal\<rparr>"

section \<open>buildConceptAnnotationsHeader\<close>

text \<open>
  The map literal is built from nothing. Its two calls are made in the order they are
  written: the UUID first, the clock second.
\<close>

definition buildConceptAnnotationsHeader :: "headers \<Rightarrow> 'p world \<Rightarrow> headers \<times> 'p world" where
  "buildConceptAnnotationsHeader publishEventHeaders w =
     (let (uuid, w1) = NewV4_String w;
          (now, w2) = Now w1
      in ([''Message-Id'' \<mapsto> uuid,
           ''Message-Type'' \<mapsto> ''concept-annotation'',
           ''Content-Type'' \<mapsto> index publishEventHeaders ''Content-Type'',
           ''X-Request-Id'' \<mapsto> index publishEventHeaders ''X-Request-Id'',
           ''Origin-System-Id'' \<mapsto> index publishEventHeaders ''Origin-System-Id'',
           ''Message-Timestamp'' \<mapsto> Format now messageTimestampDateFormat], w2))"

section \<open>HandleMessage\<close>

text \<open>The loop over the annotations of the event, lines 54 to 61 of the handler.\<close>

fun mapAnnotations ::
  "entry \<Rightarrow> PacMetadataAnnotation list \<Rightarrow> annotation slice \<times> 'p world \<Rightarrow> annotation slice \<times> 'p world" where
  "mapAnnotations requestLog [] (annotations, w) = (annotations, w)"
| "mapAnnotations requestLog (val # rest) (annotations, w) =
     (case buildAnnotation val of
        Some ann \<Rightarrow> mapAnnotations requestLog rest (append_slice annotations ann, w)
      | None \<Rightarrow>
          mapAnnotations requestLog rest
            (annotations,
             log_call WarnLevel (WithField requestLog ''metadata'' (Metadata val))
               [Str ''metadata for an unsupported predicate was not mapped''] w))"

definition HandleMessage ::
  "encoding_json \<Rightarrow> 'p AnnotationMapperService \<Rightarrow> FTMessage \<Rightarrow> 'p world \<Rightarrow> error option \<times> 'p world" where
  "HandleMessage json mapper msg w =
     (let tid = index (Headers msg) ''X-Request-Id'';
          requestLog = WithField [] ''transaction_id'' (Text tid);
          systemCode = index (Headers msg) ''Origin-System-Id''
      in if \<not> whitelist mapper systemCode then
           (None,
            log_call InfoLevel requestLog
              [Str ''Skipping annotations published with Origin-System-Id \"%v\". It does not match the configured whitelist.'',
               Str systemCode] w)
         else
           case Unmarshal json (Body msg) of
             Inl err \<Rightarrow>
               (Some err,
                log_call ErrorLevel requestLog [Str ''Cannot unmarshal message body'', Err err] w)
           | Inr metadataPublishEvent \<Rightarrow>
               (let requestLog =
                      WithField requestLog ''uuid''
                        (Text (PacMetadataPublishEvent.UUID metadataPublishEvent));
                    w = log_call InfoLevel requestLog [Str ''Processing metadata publish event''] w;
                    (annotations, w) =
                      mapAnnotations requestLog
                        (elems (PacMetadataPublishEvent.Annotations metadataPublishEvent))
                        (Slice [], w);
                    conceptAnnotations =
                      \<lparr>UUID = PacMetadataPublishEvent.UUID metadataPublishEvent,
                       Annotations = annotations\<rparr>
                in (case Marshal json conceptAnnotations of
                      Inl err \<Rightarrow>
                        (Some err,
                         log_call ErrorLevel requestLog
                           [Str ''Error marshalling the concept annotations'', Err err] w)
                    | Inr marshalledAnnotations \<Rightarrow>
                        (let (headers, w) = buildConceptAnnotationsHeader (Headers msg) w;
                             message = \<lparr>Headers = headers, Body = marshalledAnnotations\<rparr>;
                             (err, w) = SendMessage mapper message w
                         in (case err of
                               Some e \<Rightarrow>
                                 (Some e,
                                  log_call ErrorLevel requestLog
                                    [Str ''Error sending concept annotation to queue'', Err e] w)
                             | None \<Rightarrow>
                                 (None,
                                  log_call InfoLevel requestLog
                                    [Str ''Sent annotation message to queue''] w))))))"

section \<open>The pattern of the timestamp\<close>

text \<open>
  The specification writes the shape of the timestamp as \<^verbatim>\<open>YYYY-MM-DDTHH:mm:ss.sssZ\<close>. In
  such a pattern each of the letters Y, M, D, H, m and s stands for one decimal digit, and
  every other character for itself.
\<close>

definition pattern_char :: "char \<Rightarrow> char \<Rightarrow> bool" where
  "pattern_char p c = (if p \<in> set ''YMDHms'' then isDigit c else c = p)"

definition matches_pattern :: "string \<Rightarrow> string \<Rightarrow> bool" where
  "matches_pattern p s = list_all2 pattern_char p s"

text \<open>
  The readings of a clock between the years 0 and 9999: Go's \<^verbatim>\<open>Time\<close> has no leap second.
\<close>

definition wall_clock :: "Time \<Rightarrow> bool" where
  "wall_clock t =
     (year t \<le> 9999 \<and> 1 \<le> month t \<and> month t \<le> 12 \<and> 1 \<le> day t \<and> day t \<le> 31 \<and>
      hour t < 24 \<and> minute t < 60 \<and> second t < 60 \<and> nanosecond t < 1000000000)"

section \<open>The reading of the clock in UTC\<close>

text \<open>
  In ISO 8601 the final \<^verbatim>\<open>Z\<close> says that the date and the clock are those of UTC.
  \<^verbatim>\<open>Time.UTC\<close> gives the same instant in the location UTC: the clock moves back by the
  offset, and the date moves by the days that the clock crosses.
\<close>

definition leap :: "nat \<Rightarrow> bool" where
  "leap y = (if y mod 400 = 0 then True else if y mod 100 = 0 then False else y mod 4 = 0)"

definition days_in :: "nat \<Rightarrow> nat \<Rightarrow> nat" where
  "days_in y m =
     (if m = 2 then (if leap y then 29 else 28)
      else if m = 4 \<or> m = 6 \<or> m = 9 \<or> m = 11 then 30
      else 31)"

fun next_day :: "nat \<times> nat \<times> nat \<Rightarrow> nat \<times> nat \<times> nat" where
  "next_day (y, m, d) =
     (if d < days_in y m then (y, m, Suc d)
      else if m < 12 then (y, Suc m, 1)
      else (Suc y, 1, 1))"

fun prev_day :: "nat \<times> nat \<times> nat \<Rightarrow> nat \<times> nat \<times> nat" where
  "prev_day (y, m, d) =
     (if 1 < d then (y, m, d - 1)
      else if 1 < m then (y, m - 1, days_in y (m - 1))
      else (y - 1, 12, 31))"

definition UTC :: "Time \<Rightarrow> Time" where
  "UTC t =
     (let s = int (hour t * 3600 + minute t * 60 + second t) - offset t;
          r = nat (s mod 86400);
          (y, m, d) =
            (if 0 \<le> s div 86400 then (next_day ^^ nat (s div 86400)) (year t, month t, day t)
             else (prev_day ^^ nat (- (s div 86400))) (year t, month t, day t))
      in \<lparr>year = y, month = m, day = d, hour = r div 3600, minute = r div 60 mod 60,
          second = r mod 60, nanosecond = nanosecond t, offset = 0\<rparr>)"

section \<open>Example inputs\<close>

text \<open>
  A service whose whitelist matches one system code and whose producer counts the messages
  it accepted; a producer that refuses every message; a world in which nothing has happened
  yet, in a process whose local zone is UTC; and the message of the example in the
  specification.
\<close>

definition example_mapper :: "nat AnnotationMapperService" where
  "example_mapper =
     \<lparr>whitelist = (\<lambda>s. s = ''http://cmdb.ft.com/systems/pac''),
      messageProducer = (\<lambda>p m. (None, Suc p))\<rparr>"

definition refusing_mapper :: "nat AnnotationMapperService" where
  "refusing_mapper =
     \<lparr>whitelist = (\<lambda>s. s = ''http://cmdb.ft.com/systems/pac''),
      messageProducer = (\<lambda>p m. (Some (ProducerError ''broker down''), p))\<rparr>"

definition example_world :: "nat world" where
  "example_world =
     \<lparr>uuids = (\<lambda>n. replicate (Suc n) (CHR ''a'')),
      uuids_taken = 0,
      clock = (\<lambda>n. \<lparr>year = 2019, month = 3, day = 7, hour = 9, minute = 5, second = 59,
                      nanosecond = 12345678 + n, offset = 0\<rparr>),
      clock_read = 0,
      producer = 0,
      sent = [],
      logged = []\<rparr>"

text \<open>
  The same world in a process whose local zone is one hour east of UTC: the clock reads five
  past nine when it is five past eight in UTC.
\<close>

definition offset_world :: "nat world" where
  "offset_world =
     \<lparr>uuids = (\<lambda>n. replicate (Suc n) (CHR ''a'')),
      uuids_taken = 0,
      clock = (\<lambda>n. \<lparr>year = 2019, month = 3, day = 7, hour = 9, minute = 5, second = 59,
                      nanosecond = 12345678 + n, offset = 3600\<rparr>),
      clock_read = 0,
      producer = 0,
      sent = [],
      logged = []\<rparr>"

definition example_headers :: headers where
  "example_headers =
     [''Origin-System-Id'' \<mapsto> ''http://cmdb.ft.com/systems/pac'',
      ''X-Request-Id'' \<mapsto> ''tid_1'',
      ''Content-Type'' \<mapsto> ''application/json'',
      ''Message-Id'' \<mapsto> ''inbound-id'',
      ''X-Trace'' \<mapsto> ''t'']"

definition example_body :: string where
  "example_body =
     ''{\"uuid\":\"u1\",\"annotations\":[{\"conceptId\":\"c1\",\"predicate\":\"http://www.ft.com/ontology/annotation/about\"},{\"conceptId\":\"c2\",\"predicate\":\"http://unknown/x\"}]}''"

definition example_event :: PacMetadataPublishEvent where
  "example_event =
     \<lparr>PacMetadataPublishEvent.UUID = ''u1'',
      PacMetadataPublishEvent.Annotations =
        Slice [\<lparr>ConceptId = ''c1'', Predicate = ''http://www.ft.com/ontology/annotation/about''\<rparr>,
               \<lparr>ConceptId = ''c2'', Predicate = ''http://unknown/x''\<rparr>]\<rparr>"

definition failing_json :: encoding_json where
  "failing_json =
     \<lparr>Unmarshal = json_Unmarshal, Marshal = (\<lambda>v. Inl (MarshalError ''unsupported value''))\<rparr>"

section \<open>Facts about the parts\<close>

lemma decimal_small: "n < 10 \<Longrightarrow> decimal n = [''0123456789'' ! n]"
  by (subst decimal.simps) simp

lemma decimal_large:
  "\<not> n < 10 \<Longrightarrow> decimal n = decimal (n div 10) @ [''0123456789'' ! (n mod 10)]"
  by (subst decimal.simps) simp

lemma log_call_simps [simp]:
  "sent (log_call l e as w) = sent w"
  "producer (log_call l e as w) = producer w"
  "uuids (log_call l e as w) = uuids w"
  "uuids_taken (log_call l e as w) = uuids_taken w"
  "clock (log_call l e as w) = clock w"
  "clock_read (log_call l e as w) = clock_read w"
  by (simp_all add: log_call_def)

lemma mapAnnotations_fst:
  "fst (mapAnnotations rl anns (Slice acc, w)) = Slice (acc @ List.map_filter buildAnnotation anns)"
  by (induction anns arbitrary: acc w) (simp_all add: List.map_filter_simps split: option.splits)

lemma mapAnnotations_snd:
  "sent (snd (mapAnnotations rl anns (a, w))) = sent w \<and>
   producer (snd (mapAnnotations rl anns (a, w))) = producer w \<and>
   uuids (snd (mapAnnotations rl anns (a, w))) = uuids w \<and>
   uuids_taken (snd (mapAnnotations rl anns (a, w))) = uuids_taken w \<and>
   clock (snd (mapAnnotations rl anns (a, w))) = clock w \<and>
   clock_read (snd (mapAnnotations rl anns (a, w))) = clock_read w"
  by (induction anns arbitrary: a w) (simp_all split: option.splits)

lemma mapAnnotations_result:
  assumes "mapAnnotations rl anns (Slice [], w) = (a, w')"
  shows "a = Slice (List.map_filter buildAnnotation anns)"
    and "sent w' = sent w" and "producer w' = producer w"
    and "uuids w' = uuids w" and "uuids_taken w' = uuids_taken w"
    and "clock w' = clock w" and "clock_read w' = clock_read w"
proof -
  have a: "a = fst (mapAnnotations rl anns (Slice [], w))"
    and w': "w' = snd (mapAnnotations rl anns (Slice [], w))"
    using assms by simp_all
  from a show "a = Slice (List.map_filter buildAnnotation anns)"
    by (simp add: mapAnnotations_fst)
  show "sent w' = sent w" and "producer w' = producer w"
    and "uuids w' = uuids w" and "uuids_taken w' = uuids_taken w"
    and "clock w' = clock w" and "clock_read w' = clock_read w"
    unfolding w' by (simp_all add: mapAnnotations_snd)
qed

lemma map_filter_table:
  "List.map_filter buildAnnotation anns =
     map (\<lambda>a. \<lparr>Thing = \<lparr>ID = ConceptId a,
                           Predicate = the (predicates (PacMetadataAnnotation.Predicate a))\<rparr>\<rparr>)
       (filter (\<lambda>a. PacMetadataAnnotation.Predicate a \<in> dom predicates) anns)"
  by (induction anns) (auto simp: List.map_filter_simps buildAnnotation_def split: option.splits)

lemma header_fst_cong:
  "uuids w' = uuids w \<Longrightarrow> uuids_taken w' = uuids_taken w \<Longrightarrow> clock w' = clock w \<Longrightarrow>
   clock_read w' = clock_read w \<Longrightarrow>
   fst (buildConceptAnnotationsHeader h w') = fst (buildConceptAnnotationsHeader h w)"
  by (simp add: buildConceptAnnotationsHeader_def NewV4_String_def Now_def)

lemma header_snd:
  "sent (snd (buildConceptAnnotationsHeader h w)) = sent w \<and>
   producer (snd (buildConceptAnnotationsHeader h w)) = producer w"
  by (simp add: buildConceptAnnotationsHeader_def NewV4_String_def Now_def)

section \<open>The paths through HandleMessage\<close>

lemma HandleMessage_skip:
  "\<not> whitelist mapper (index (Headers msg) ''Origin-System-Id'') \<Longrightarrow>
   HandleMessage json mapper msg w =
     (None,
      log_call InfoLevel (WithField [] ''transaction_id'' (Text (index (Headers msg) ''X-Request-Id'')))
        [Str ''Skipping annotations published with Origin-System-Id \"%v\". It does not match the configured whitelist.'',
         Str (index (Headers msg) ''Origin-System-Id'')] w)"
  by (simp add: HandleMessage_def Let_def)

lemma HandleMessage_decode_error:
  "whitelist mapper (index (Headers msg) ''Origin-System-Id'') \<Longrightarrow>
   Unmarshal json (Body msg) = Inl err \<Longrightarrow>
   HandleMessage json mapper msg w =
     (Some err,
      log_call ErrorLevel (WithField [] ''transaction_id'' (Text (index (Headers msg) ''X-Request-Id'')))
        [Str ''Cannot unmarshal message body'', Err err] w)"
  by (simp add: HandleMessage_def Let_def)

lemma HandleMessage_encode_error:
  assumes "whitelist mapper (index (Headers msg) ''Origin-System-Id'')"
    and "Unmarshal json (Body msg) = Inr ev"
    and "Marshal json
           \<lparr>UUID = PacMetadataPublishEvent.UUID ev,
            Annotations =
              Slice (List.map_filter buildAnnotation
                       (elems (PacMetadataPublishEvent.Annotations ev)))\<rparr> = Inl err"
  shows "fst (HandleMessage json mapper msg w) = Some err \<and>
         sent (snd (HandleMessage json mapper msg w)) = sent w \<and>
         producer (snd (HandleMessage json mapper msg w)) = producer w"
proof -
  define rl where
    "rl = WithField (WithField [] ''transaction_id'' (Text (index (Headers msg) ''X-Request-Id'')))
            ''uuid'' (Text (PacMetadataPublishEvent.UUID ev))"
  define w1 where "w1 = log_call InfoLevel rl [Str ''Processing metadata publish event''] w"
  obtain a w2 where
    m: "mapAnnotations rl (elems (PacMetadataPublishEvent.Annotations ev)) (Slice [], w1) = (a, w2)"
    by (cases "mapAnnotations rl (elems (PacMetadataPublishEvent.Annotations ev)) (Slice [], w1)")
  note r = mapAnnotations_result [OF m]
  have "HandleMessage json mapper msg w =
          (Some err,
           log_call ErrorLevel rl [Str ''Error marshalling the concept annotations'', Err err] w2)"
    using assms m r(1) by (simp add: HandleMessage_def Let_def rl_def w1_def)
  then show ?thesis
    using r by (simp add: w1_def)
qed

lemma HandleMessage_sent:
  assumes "whitelist mapper (index (Headers msg) ''Origin-System-Id'')"
    and "Unmarshal json (Body msg) = Inr ev"
    and "Marshal json
           \<lparr>UUID = PacMetadataPublishEvent.UUID ev,
            Annotations =
              Slice (List.map_filter buildAnnotation
                       (elems (PacMetadataPublishEvent.Annotations ev)))\<rparr> = Inr body"
  shows "fst (HandleMessage json mapper msg w) =
           fst (messageProducer mapper (producer w)
                 \<lparr>Headers = fst (buildConceptAnnotationsHeader (Headers msg) w), Body = body\<rparr>) \<and>
         sent (snd (HandleMessage json mapper msg w)) =
           sent w @ [\<lparr>Headers = fst (buildConceptAnnotationsHeader (Headers msg) w), Body = body\<rparr>] \<and>
         producer (snd (HandleMessage json mapper msg w)) =
           snd (messageProducer mapper (producer w)
                 \<lparr>Headers = fst (buildConceptAnnotationsHeader (Headers msg) w), Body = body\<rparr>)"
proof -
  define rl where
    "rl = WithField (WithField [] ''transaction_id'' (Text (index (Headers msg) ''X-Request-Id'')))
            ''uuid'' (Text (PacMetadataPublishEvent.UUID ev))"
  define w1 where "w1 = log_call InfoLevel rl [Str ''Processing metadata publish event''] w"
  obtain a w2 where
    m: "mapAnnotations rl (elems (PacMetadataPublishEvent.Annotations ev)) (Slice [], w1) = (a, w2)"
    by (cases "mapAnnotations rl (elems (PacMetadataPublishEvent.Annotations ev)) (Slice [], w1)")
  note r = mapAnnotations_result [OF m]
  obtain hs w3 where h: "buildConceptAnnotationsHeader (Headers msg) w2 = (hs, w3)"
    by (cases "buildConceptAnnotationsHeader (Headers msg) w2")
  have hs: "hs = fst (buildConceptAnnotationsHeader (Headers msg) w)"
    using h header_fst_cong [of w2 w "Headers msg"] r by (simp add: w1_def)
  have w3: "sent w3 = sent w" "producer w3 = producer w"
    using h header_snd [of "Headers msg" w2] r by (simp_all add: w1_def)
  define m' where "m' = \<lparr>Headers = hs, Body = body\<rparr>"
  obtain e p where s: "messageProducer mapper (producer w) m' = (e, p)"
    by (cases "messageProducer mapper (producer w) m'")
  have "HandleMessage json mapper msg w =
          (case e of
             Some e' \<Rightarrow>
               (Some e',
                log_call ErrorLevel rl [Str ''Error sending concept annotation to queue'', Err e']
                  (w3\<lparr>producer := p, sent := sent w3 @ [m']\<rparr>))
           | None \<Rightarrow>
               (None,
                log_call InfoLevel rl [Str ''Sent annotation message to queue'']
                  (w3\<lparr>producer := p, sent := sent w3 @ [m']\<rparr>)))"
    using assms m r(1) h s w3
    by (cases e) (simp_all add: HandleMessage_def Let_def rl_def w1_def SendMessage_def m'_def)
  then show ?thesis
    using s w3 hs by (cases e) (simp_all add: m'_def)
qed

section \<open>The example, step by step\<close>

lemmas scan_eval = parse_def idle_def emit_def isSpace_def quote_def backslash_def isDigit_def
  byte_def unquote_head_def

lemma example_parse:
  "parse example_body =
     Some (JObject
       [(''uuid'', JString ''u1''),
        (''annotations'',
         JArray
           [JObject [(''conceptId'', JString ''c1''),
                     (''predicate'', JString ''http://www.ft.com/ontology/annotation/about'')],
            JObject [(''conceptId'', JString ''c2''),
                     (''predicate'', JString ''http://unknown/x'')]])])"
  by (simp add: example_body_def scan_eval)

lemma example_unmarshal: "json_Unmarshal example_body = Inr example_event"
  by (simp add: json_Unmarshal_def example_parse example_event_def names_def lower_def byte_def)

lemma example_mapped:
  "List.map_filter buildAnnotation (elems (PacMetadataPublishEvent.Annotations example_event)) =
     [\<lparr>Thing = \<lparr>ID = ''c1'', Predicate = ''about''\<rparr>\<rparr>]"
  by (simp add: example_event_def List.map_filter_simps buildAnnotation_def predicates_def)

lemmas marshal_eval = json_Marshal_def marshal_string_def marshal_annotation_def marshal_thing_def
  encode_head_def byte_def quote_def backslash_def

lemma example_marshal:
  "json_Marshal \<lparr>UUID = ''u1'', Annotations = Slice [\<lparr>Thing = \<lparr>ID = ''c1'', Predicate = ''about''\<rparr>\<rparr>]\<rparr> =
     Inr ''{\"uuid\":\"u1\",\"annotations\":[{\"thing\":{\"id\":\"c1\",\"predicate\":\"about\"}}]}''"
  by (simp add: marshal_eval)

section \<open>Mapping the annotations\<close>

text \<open>
  Claim C1. When the origin is whitelisted and the body decodes to an event, the envelope
  that the handler marshals and hands to the producer holds, for every occurrence of a raw
  annotation whose predicate is a key of the predicate table, exactly one outbound
  annotation, whose \<open>ID\<close> is the concept identifier of that raw annotation and whose
  \<open>Predicate\<close> is the short name the table gives for its predicate; it holds nothing else.
  The producer is called with the marshalled form of that envelope.
\<close>

theorem mapped_annotations_are_sent:
  assumes "whitelist mapper (index (Headers msg) ''Origin-System-Id'')"
    and "Unmarshal json (Body msg) = Inr ev"
    and "Marshal json
           \<lparr>UUID = PacMetadataPublishEvent.UUID ev,
            Annotations =
              Slice (map (\<lambda>a. \<lparr>Thing = \<lparr>ID = ConceptId a,
                                   Predicate = the (predicates (PacMetadataAnnotation.Predicate a))\<rparr>\<rparr>)
                       (filter (\<lambda>a. PacMetadataAnnotation.Predicate a \<in> dom predicates)
                          (elems (PacMetadataPublishEvent.Annotations ev))))\<rparr> = Inr body"
  shows "sent (snd (HandleMessage json mapper msg w)) =
           sent w @ [\<lparr>Headers = fst (buildConceptAnnotationsHeader (Headers msg) w), Body = body\<rparr>]"
  using HandleMessage_sent [OF assms(1) assms(2), of body w] assms(3)
  by (simp add: map_filter_table)

theorem mapped_annotations_are_sent_witness:
  "whitelist example_mapper (index (Headers \<lparr>Headers = example_headers, Body = example_body\<rparr>)
     ''Origin-System-Id'') \<and>
   Unmarshal go_json (Body \<lparr>Headers = example_headers, Body = example_body\<rparr>) = Inr example_event \<and>
   map Body (sent (snd (HandleMessage go_json example_mapper
     \<lparr>Headers = example_headers, Body = example_body\<rparr> example_world))) =
     [''{\"uuid\":\"u1\",\"annotations\":[{\"thing\":{\"id\":\"c1\",\"predicate\":\"about\"}}]}'']"
proof -
  have wl: "whitelist example_mapper
              (index (Headers \<lparr>Headers = example_headers, Body = example_body\<rparr>) ''Origin-System-Id'')"
    by (simp add: example_mapper_def example_headers_def index_def)
  have un: "Unmarshal go_json (Body \<lparr>Headers = example_headers, Body = example_body\<rparr>) =
              Inr example_event"
    by (simp add: go_json_def example_unmarshal)
  have ma: "Marshal go_json
              \<lparr>UUID = PacMetadataPublishEvent.UUID example_event,
               Annotations =
                 Slice (map (\<lambda>a. \<lparr>Thing = \<lparr>ID = ConceptId a,
                                      Predicate = the (predicates (PacMetadataAnnotation.Predicate a))\<rparr>\<rparr>)
                          (filter (\<lambda>a. PacMetadataAnnotation.Predicate a \<in> dom predicates)
                             (elems (PacMetadataPublishEvent.Annotations example_event))))\<rparr> =
              Inr ''{\"uuid\":\"u1\",\"annotations\":[{\"thing\":{\"id\":\"c1\",\"predicate\":\"about\"}}]}''"
  proof -
    have u: "PacMetadataPublishEvent.UUID example_event = ''u1''"
      by (simp add: example_event_def)
    show ?thesis
      unfolding map_filter_table [symmetric] example_mapped u
      using example_marshal by (simp add: go_json_def)
  qed
  show ?thesis
    using mapped_annotations_are_sent [OF wl un ma, of example_world] wl un
    by (simp add: example_world_def)
qed

text \<open>
  Claim C2. In the loop of the handler over the annotations of a decoded event, a raw
  annotation whose predicate is not a key of the predicate table yields no outbound
  annotation; the number of outbound annotations is the number of raw annotations less the
  number of those whose predicate is not a key; and the outbound annotations are, in the order
  of the input, what \<open>buildAnnotation\<close> gives for the raw annotations that remain.
\<close>

theorem unmapped_annotations_are_dropped:
  "(\<forall>a :: PacMetadataAnnotation.
      PacMetadataAnnotation.Predicate a \<notin> dom predicates \<longrightarrow> buildAnnotation a = None) \<and>
   length (elems (fst (mapAnnotations rl anns (Slice [], w)))) =
     length anns - length (filter (\<lambda>a. PacMetadataAnnotation.Predicate a \<notin> dom predicates) anns) \<and>
   fst (mapAnnotations rl anns (Slice [], w)) =
     Slice (map (\<lambda>a. the (buildAnnotation a))
              (filter (\<lambda>a. PacMetadataAnnotation.Predicate a \<in> dom predicates) anns))"
proof (intro conjI allI impI)
  fix a :: PacMetadataAnnotation
  assume "PacMetadataAnnotation.Predicate a \<notin> dom predicates"
  then show "buildAnnotation a = None"
    by (auto simp: buildAnnotation_def split: option.splits)
next
  have "length (filter (\<lambda>a. PacMetadataAnnotation.Predicate a \<in> dom predicates) anns) +
        length (filter (\<lambda>a. PacMetadataAnnotation.Predicate a \<notin> dom predicates) anns) = length anns"
    by (rule sum_length_filter_compl)
  then show "length (elems (fst (mapAnnotations rl anns (Slice [], w)))) =
     length anns - length (filter (\<lambda>a. PacMetadataAnnotation.Predicate a \<notin> dom predicates) anns)"
    using mapAnnotations_fst [of rl anns "[]" w] by (simp add: map_filter_table)
next
  have "map (\<lambda>a. the (buildAnnotation a))
          (filter (\<lambda>a. PacMetadataAnnotation.Predicate a \<in> dom predicates) anns) =
        List.map_filter buildAnnotation anns"
    by (induction anns) (auto simp: List.map_filter_simps buildAnnotation_def split: option.splits)
  then show "fst (mapAnnotations rl anns (Slice [], w)) =
     Slice (map (\<lambda>a. the (buildAnnotation a))
              (filter (\<lambda>a. PacMetadataAnnotation.Predicate a \<in> dom predicates) anns))"
    using mapAnnotations_fst [of rl anns "[]" w] by simp
qed

theorem unmapped_annotations_are_dropped_witness:
  "PacMetadataAnnotation.Predicate \<lparr>ConceptId = ''c2'', Predicate = ''http://unknown/x''\<rparr>
     \<notin> dom predicates \<and>
   buildAnnotation \<lparr>ConceptId = ''c2'', Predicate = ''http://unknown/x''\<rparr> = None \<and>
   length (elems (fst (mapAnnotations []
     (elems (PacMetadataPublishEvent.Annotations example_event)) (Slice [], example_world)))) = 1 \<and>
   fst (mapAnnotations [] (elems (PacMetadataPublishEvent.Annotations example_event))
     (Slice [], example_world)) = Slice [\<lparr>Thing = \<lparr>ID = ''c1'', Predicate = ''about''\<rparr>\<rparr>]"
proof -
  have d: "PacMetadataAnnotation.Predicate \<lparr>ConceptId = ''c2'', Predicate = ''http://unknown/x''\<rparr>
             \<notin> dom predicates"
    by (simp add: predicates_def dom_def)
  have f: "filter (\<lambda>a. PacMetadataAnnotation.Predicate a \<in> dom predicates)
             (elems (PacMetadataPublishEvent.Annotations example_event)) =
           [\<lparr>ConceptId = ''c1'', Predicate = ''http://www.ft.com/ontology/annotation/about''\<rparr>]"
    by (simp add: example_event_def predicates_def dom_def)
  have g: "filter (\<lambda>a. PacMetadataAnnotation.Predicate a \<notin> dom predicates)
             (elems (PacMetadataPublishEvent.Annotations example_event)) =
           [\<lparr>ConceptId = ''c2'', Predicate = ''http://unknown/x''\<rparr>]"
    by (simp add: example_event_def predicates_def dom_def)
  have b: "buildAnnotation \<lparr>ConceptId = ''c1'', Predicate = ''http://www.ft.com/ontology/annotation/about''\<rparr> =
             Some \<lparr>Thing = \<lparr>ID = ''c1'', Predicate = ''about''\<rparr>\<rparr>"
    by (simp add: buildAnnotation_def predicates_def)
  have l: "length (elems (PacMetadataPublishEvent.Annotations example_event)) = 2"
    by (simp add: example_event_def)
  show ?thesis
    using unmapped_annotations_are_dropped
            [of "[]" "elems (PacMetadataPublishEvent.Annotations example_event)" example_world]
          d f g b l
    by simp
qed

section \<open>The whitelist\<close>

text \<open>
  Claim C3. When the value of the header \<^verbatim>\<open>Origin-System-Id\<close> does not match the whitelist,
  the handler returns nil, the producer is not called and keeps its state, and the outcome
  does not depend on the body nor on what decoding or encoding would do: nothing of the body
  is decoded or processed.
\<close>

theorem not_whitelisted_is_skipped:
  assumes "\<not> whitelist mapper (index (Headers msg) ''Origin-System-Id'')"
  shows "fst (HandleMessage json mapper msg w) = None \<and>
         sent (snd (HandleMessage json mapper msg w)) = sent w \<and>
         producer (snd (HandleMessage json mapper msg w)) = producer w \<and>
         HandleMessage json' mapper (msg\<lparr>Body := body'\<rparr>) w = HandleMessage json mapper msg w"
  using assms by (simp add: HandleMessage_skip)

theorem not_whitelisted_is_skipped_witness:
  "\<not> whitelist example_mapper
       (index (Headers \<lparr>Headers = [''Origin-System-Id'' \<mapsto> ''http://cmdb.ft.com/systems/other''],
                        Body = example_body\<rparr>) ''Origin-System-Id'') \<and>
   fst (HandleMessage go_json example_mapper
          \<lparr>Headers = [''Origin-System-Id'' \<mapsto> ''http://cmdb.ft.com/systems/other''],
           Body = example_body\<rparr> example_world) = None \<and>
   sent (snd (HandleMessage go_json example_mapper
          \<lparr>Headers = [''Origin-System-Id'' \<mapsto> ''http://cmdb.ft.com/systems/other''],
           Body = example_body\<rparr> example_world)) = []"
  using not_whitelisted_is_skipped
          [of example_mapper
              "\<lparr>Headers = [''Origin-System-Id'' \<mapsto> ''http://cmdb.ft.com/systems/other''],
                Body = example_body\<rparr>"
              go_json example_world go_json example_body]
  by (simp add: example_mapper_def index_def example_world_def)

section \<open>Failures\<close>

text \<open>
  Claim C4. When the origin is whitelisted and decoding the body fails, the handler returns
  the error of the decoder, and the producer is not called: its list of calls and its state
  are as before, and neither a UUID nor the clock has been taken for outbound headers.
\<close>

theorem decode_failure_is_returned:
  assumes "whitelist mapper (index (Headers msg) ''Origin-System-Id'')"
    and "Unmarshal json (Body msg) = Inl err"
  shows "fst (HandleMessage json mapper msg w) = Some err \<and>
         sent (snd (HandleMessage json mapper msg w)) = sent w \<and>
         producer (snd (HandleMessage json mapper msg w)) = producer w \<and>
         uuids_taken (snd (HandleMessage json mapper msg w)) = uuids_taken w \<and>
         clock_read (snd (HandleMessage json mapper msg w)) = clock_read w"
  using assms by (simp add: HandleMessage_decode_error)

theorem decode_failure_is_returned_witness:
  "whitelist example_mapper
     (index (Headers \<lparr>Headers = example_headers, Body = ''{\"uuid\":''\<rparr>) ''Origin-System-Id'') \<and>
   Unmarshal go_json (Body \<lparr>Headers = example_headers, Body = ''{\"uuid\":''\<rparr>) = Inl SyntaxError \<and>
   fst (HandleMessage go_json example_mapper
          \<lparr>Headers = example_headers, Body = ''{\"uuid\":''\<rparr> example_world) = Some SyntaxError \<and>
   sent (snd (HandleMessage go_json example_mapper
          \<lparr>Headers = example_headers, Body = ''{\"uuid\":''\<rparr> example_world)) = []"
proof -
  have wl: "whitelist example_mapper
              (index (Headers \<lparr>Headers = example_headers, Body = ''{\"uuid\":''\<rparr>) ''Origin-System-Id'')"
    by (simp add: example_mapper_def example_headers_def index_def)
  have un: "Unmarshal go_json (Body \<lparr>Headers = example_headers, Body = ''{\"uuid\":''\<rparr>) =
              Inl SyntaxError"
    by (simp add: go_json_def json_Unmarshal_def scan_eval)
  show ?thesis
    using decode_failure_is_returned [OF wl un, of example_world] wl un
    by (simp add: example_world_def)
qed

text \<open>
  Claim C8. For a whitelisted message each of the three failures ends the call with the error
  as it was reported, and nothing is tried again: when decoding fails, or when encoding the
  envelope fails, the producer is not called; when the producer fails, it has been called
  once, with the one outbound message, and its state is the one that call left.
\<close>

theorem failures_are_returned_without_retry:
  assumes "whitelist mapper (index (Headers msg) ''Origin-System-Id'')"
  shows "(Unmarshal json (Body msg) = Inl err \<longrightarrow>
            fst (HandleMessage json mapper msg w) = Some err \<and>
            sent (snd (HandleMessage json mapper msg w)) = sent w \<and>
            producer (snd (HandleMessage json mapper msg w)) = producer w) \<and>
         (Unmarshal json (Body msg) = Inr ev \<and>
          Marshal json
            \<lparr>UUID = PacMetadataPublishEvent.UUID ev,
             Annotations =
               Slice (List.map_filter buildAnnotation
                        (elems (PacMetadataPublishEvent.Annotations ev)))\<rparr> = Inl err \<longrightarrow>
            fst (HandleMessage json mapper msg w) = Some err \<and>
            sent (snd (HandleMessage json mapper msg w)) = sent w \<and>
            producer (snd (HandleMessage json mapper msg w)) = producer w) \<and>
         (Unmarshal json (Body msg) = Inr ev \<and>
          Marshal json
            \<lparr>UUID = PacMetadataPublishEvent.UUID ev,
             Annotations =
               Slice (List.map_filter buildAnnotation
                        (elems (PacMetadataPublishEvent.Annotations ev)))\<rparr> = Inr body \<and>
          messageProducer mapper (producer w)
            \<lparr>Headers = fst (buildConceptAnnotationsHeader (Headers msg) w), Body = body\<rparr> =
            (Some err, p) \<longrightarrow>
            fst (HandleMessage json mapper msg w) = Some err \<and>
            sent (snd (HandleMessage json mapper msg w)) =
              sent w @ [\<lparr>Headers = fst (buildConceptAnnotationsHeader (Headers msg) w), Body = body\<rparr>] \<and>
            producer (snd (HandleMessage json mapper msg w)) = p)"
proof (intro conjI impI)
  assume "Unmarshal json (Body msg) = Inl err"
  with assms have "HandleMessage json mapper msg w =
     (Some err,
      log_call ErrorLevel (WithField [] ''transaction_id'' (Text (index (Headers msg) ''X-Request-Id'')))
        [Str ''Cannot unmarshal message body'', Err err] w)"
    by (rule HandleMessage_decode_error)
  then show "fst (HandleMessage json mapper msg w) = Some err"
    and "sent (snd (HandleMessage json mapper msg w)) = sent w"
    and "producer (snd (HandleMessage json mapper msg w)) = producer w"
    by simp_all
next
  assume a: "Unmarshal json (Body msg) = Inr ev \<and>
          Marshal json
            \<lparr>UUID = PacMetadataPublishEvent.UUID ev,
             Annotations =
               Slice (List.map_filter buildAnnotation
                        (elems (PacMetadataPublishEvent.Annotations ev)))\<rparr> = Inl err"
  note r = HandleMessage_encode_error [OF assms conjunct1 [OF a] conjunct2 [OF a], of w]
  from r show "fst (HandleMessage json mapper msg w) = Some err" by simp
  from r show "sent (snd (HandleMessage json mapper msg w)) = sent w" by simp
  from r show "producer (snd (HandleMessage json mapper msg w)) = producer w" by simp
next
  assume a: "Unmarshal json (Body msg) = Inr ev \<and>
          Marshal json
            \<lparr>UUID = PacMetadataPublishEvent.UUID ev,
             Annotations =
               Slice (List.map_filter buildAnnotation
                        (elems (PacMetadataPublishEvent.Annotations ev)))\<rparr> = Inr body \<and>
          messageProducer mapper (producer w)
            \<lparr>Headers = fst (buildConceptAnnotationsHeader (Headers msg) w), Body = body\<rparr> =
            (Some err, p)"
  note r = HandleMessage_sent [OF assms conjunct1 [OF a] conjunct1 [OF conjunct2 [OF a]], of w]
  from r a show "fst (HandleMessage json mapper msg w) = Some err" by simp
  from r show "sent (snd (HandleMessage json mapper msg w)) =
              sent w @ [\<lparr>Headers = fst (buildConceptAnnotationsHeader (Headers msg) w), Body = body\<rparr>]"
    by simp
  from r a show "producer (snd (HandleMessage json mapper msg w)) = p" by simp
qed

theorem failures_are_returned_without_retry_witness:
  "whitelist refusing_mapper
     (index (Headers \<lparr>Headers = example_headers, Body = example_body\<rparr>) ''Origin-System-Id'') \<and>
   Unmarshal go_json ''[1'' = Inl SyntaxError \<and>
   fst (HandleMessage go_json refusing_mapper
          \<lparr>Headers = example_headers, Body = ''[1''\<rparr> example_world) = Some SyntaxError \<and>
   sent (snd (HandleMessage go_json refusing_mapper
          \<lparr>Headers = example_headers, Body = ''[1''\<rparr> example_world)) = [] \<and>
   Unmarshal failing_json example_body = Inr example_event \<and>
   fst (HandleMessage failing_json refusing_mapper
          \<lparr>Headers = example_headers, Body = example_body\<rparr> example_world) =
     Some (MarshalError ''unsupported value'') \<and>
   sent (snd (HandleMessage failing_json refusing_mapper
          \<lparr>Headers = example_headers, Body = example_body\<rparr> example_world)) = [] \<and>
   Unmarshal go_json example_body = Inr example_event \<and>
   fst (HandleMessage go_json refusing_mapper
          \<lparr>Headers = example_headers, Body = example_body\<rparr> example_world) =
     Some (ProducerError ''broker down'') \<and>
   map Body (sent (snd (HandleMessage go_json refusing_mapper
          \<lparr>Headers = example_headers, Body = example_body\<rparr> example_world))) =
     [''{\"uuid\":\"u1\",\"annotations\":[{\"thing\":{\"id\":\"c1\",\"predicate\":\"about\"}}]}''] \<and>
   producer (snd (HandleMessage go_json refusing_mapper
          \<lparr>Headers = example_headers, Body = example_body\<rparr> example_world)) = 0"
proof -
  have wl: "\<And>b. whitelist refusing_mapper
              (index (Headers \<lparr>Headers = example_headers, Body = b\<rparr>) ''Origin-System-Id'')"
    by (simp add: refusing_mapper_def example_headers_def index_def)
  have bad: "Unmarshal go_json ''[1'' = Inl SyntaxError"
    by (simp add: go_json_def json_Unmarshal_def scan_eval)
  have un: "Unmarshal go_json example_body = Inr example_event"
    and un': "Unmarshal failing_json example_body = Inr example_event"
    by (simp_all add: go_json_def failing_json_def example_unmarshal)
  have u: "PacMetadataPublishEvent.UUID example_event = ''u1''"
    by (simp add: example_event_def)
  have ma: "Marshal go_json
              \<lparr>UUID = PacMetadataPublishEvent.UUID example_event,
               Annotations =
                 Slice (List.map_filter buildAnnotation
                          (elems (PacMetadataPublishEvent.Annotations example_event)))\<rparr> =
            Inr ''{\"uuid\":\"u1\",\"annotations\":[{\"thing\":{\"id\":\"c1\",\"predicate\":\"about\"}}]}''"
    unfolding example_mapped u using example_marshal by (simp add: go_json_def)
  have ma': "\<And>v. Marshal failing_json v = Inl (MarshalError ''unsupported value'')"
    by (simp add: failing_json_def)
  have pr: "\<And>m. messageProducer refusing_mapper (producer example_world) m =
              (Some (ProducerError ''broker down''), 0)"
    by (simp add: refusing_mapper_def example_world_def)
  have s: "sent example_world = []"
    by (simp add: example_world_def)
  note one = failures_are_returned_without_retry
      [OF wl, of go_json "''[1''" SyntaxError example_world, unfolded FTMessage.simps]
  note two = failures_are_returned_without_retry
      [OF wl, of failing_json example_body "MarshalError ''unsupported value''" example_world example_event,
       unfolded FTMessage.simps]
  note three = failures_are_returned_without_retry
      [OF wl, of go_json example_body "ProducerError ''broker down''" example_world example_event
         "''{\"uuid\":\"u1\",\"annotations\":[{\"thing\":{\"id\":\"c1\",\"predicate\":\"about\"}}]}''" 0,
       unfolded FTMessage.simps]
  show ?thesis
    using one two three wl bad un un' ma ma' pr s by simp
qed

section \<open>The example of the specification\<close>

text \<open>
  Claim C9. For a message whose origin is whitelisted and whose body is the input of the
  example, with Go's decoder and encoder, the producer is called exactly once more, and the
  body of the message it is called with is the output of the example.
\<close>

theorem example_is_mapped:
  assumes "whitelist mapper (index (Headers msg) ''Origin-System-Id'')"
    and "Body msg =
      ''{\"uuid\":\"u1\",\"annotations\":[{\"conceptId\":\"c1\",\"predicate\":\"http://www.ft.com/ontology/annotation/about\"},{\"conceptId\":\"c2\",\"predicate\":\"http://unknown/x\"}]}''"
  shows "sent (snd (HandleMessage go_json mapper msg w)) =
           sent w @
           [\<lparr>Headers = fst (buildConceptAnnotationsHeader (Headers msg) w),
             Body = ''{\"uuid\":\"u1\",\"annotations\":[{\"thing\":{\"id\":\"c1\",\"predicate\":\"about\"}}]}''\<rparr>]"
proof -
  have un: "Unmarshal go_json (Body msg) = Inr example_event"
    using assms(2) example_unmarshal by (simp add: go_json_def example_body_def)
  have u: "PacMetadataPublishEvent.UUID example_event = ''u1''"
    by (simp add: example_event_def)
  have ma: "Marshal go_json
              \<lparr>UUID = PacMetadataPublishEvent.UUID example_event,
               Annotations =
                 Slice (List.map_filter buildAnnotation
                          (elems (PacMetadataPublishEvent.Annotations example_event)))\<rparr> =
            Inr ''{\"uuid\":\"u1\",\"annotations\":[{\"thing\":{\"id\":\"c1\",\"predicate\":\"about\"}}]}''"
    unfolding example_mapped u using example_marshal by (simp add: go_json_def)
  show ?thesis
    using HandleMessage_sent [OF assms(1) un ma, of w] by simp
qed

theorem example_is_mapped_witness:
  "whitelist example_mapper
     (index (Headers \<lparr>Headers = example_headers, Body = example_body\<rparr>) ''Origin-System-Id'') \<and>
   fst (HandleMessage go_json example_mapper
          \<lparr>Headers = example_headers, Body = example_body\<rparr> example_world) = None \<and>
   length (sent (snd (HandleMessage go_json example_mapper
          \<lparr>Headers = example_headers, Body = example_body\<rparr> example_world))) = 1 \<and>
   map Body (sent (snd (HandleMessage go_json example_mapper
          \<lparr>Headers = example_headers, Body = example_body\<rparr> example_world))) =
     [''{\"uuid\":\"u1\",\"annotations\":[{\"thing\":{\"id\":\"c1\",\"predicate\":\"about\"}}]}'']"
proof -
  have wl: "whitelist example_mapper
              (index (Headers \<lparr>Headers = example_headers, Body = example_body\<rparr>) ''Origin-System-Id'')"
    by (simp add: example_mapper_def example_headers_def index_def)
  have b: "Body \<lparr>Headers = example_headers, Body = example_body\<rparr> =
      ''{\"uuid\":\"u1\",\"annotations\":[{\"conceptId\":\"c1\",\"predicate\":\"http://www.ft.com/ontology/annotation/about\"},{\"conceptId\":\"c2\",\"predicate\":\"http://unknown/x\"}]}''"
    by (simp add: example_body_def)
  have un: "Unmarshal go_json (Body \<lparr>Headers = example_headers, Body = example_body\<rparr>) =
              Inr example_event"
    by (simp add: go_json_def example_unmarshal)
  have u: "PacMetadataPublishEvent.UUID example_event = ''u1''"
    by (simp add: example_event_def)
  have ma: "Marshal go_json
              \<lparr>UUID = PacMetadataPublishEvent.UUID example_event,
               Annotations =
                 Slice (List.map_filter buildAnnotation
                          (elems (PacMetadataPublishEvent.Annotations example_event)))\<rparr> =
            Inr ''{\"uuid\":\"u1\",\"annotations\":[{\"thing\":{\"id\":\"c1\",\"predicate\":\"about\"}}]}''"
    unfolding example_mapped u using example_marshal by (simp add: go_json_def)
  have ok: "fst (HandleMessage go_json example_mapper
          \<lparr>Headers = example_headers, Body = example_body\<rparr> example_world) = None"
    using HandleMessage_sent [OF wl un ma, of example_world] by (simp add: example_mapper_def)
  show ?thesis
    using example_is_mapped [OF wl b, of example_world] wl ok by (simp add: example_world_def)
qed

section \<open>The shape of the timestamp\<close>

lemma digit_nth: "k < 10 \<Longrightarrow> isDigit (''0123456789'' ! k)"
  unfolding isDigit_def by (rule nth_mem) simp

lemma decimal_digits: "list_all isDigit (decimal n)"
proof (induction n rule: decimal.induct)
  case (1 n)
  show ?case
  proof (cases "n < 10")
    case True
    then show ?thesis by (subst decimal.simps) (simp add: digit_nth)
  next
    case False
    then have "list_all isDigit (decimal (n div 10))" by (rule "1.IH")
    moreover have "isDigit (''0123456789'' ! (n mod 10))" by (rule digit_nth) simp
    ultimately show ?thesis using False by (subst decimal.simps) simp
  qed
qed

lemma length_decimal: "n < 10 ^ w \<Longrightarrow> 0 < w \<Longrightarrow> length (decimal n) \<le> w"
proof (induction n arbitrary: w rule: decimal.induct)
  case (1 n)
  show ?case
  proof (cases "n < 10")
    case True
    then show ?thesis using "1.prems" by (subst decimal.simps) simp
  next
    case False
    obtain v where w: "w = Suc v" using "1.prems"(2) by (cases w) auto
    have v: "0 < v" using False "1.prems"(1) w by (cases v) auto
    have "n div 10 < 10 ^ v" using "1.prems"(1) w by (simp add: less_mult_imp_div_less mult.commute)
    then have "length (decimal (n div 10)) \<le> v" using "1.IH" False v by blast
    then show ?thesis using False w by (subst decimal.simps) simp
  qed
qed

lemma length_appendInt: "n < 10 ^ w \<Longrightarrow> 0 < w \<Longrightarrow> length (appendInt n w) = w"
  using length_decimal [of n w] by (simp add: appendInt_def)

lemma appendInt_digits: "list_all isDigit (appendInt n w)"
proof -
  have "isDigit (CHR ''0'')" by (simp add: isDigit_def)
  then have "list_all isDigit (replicate (w - length (decimal n)) (CHR ''0''))"
    by (simp add: list_all_iff)
  then show ?thesis by (simp add: appendInt_def decimal_digits)
qed

lemma Format_layout:
  "Format t messageTimestampDateFormat =
     appendInt (year t) 4 @ ''-'' @ appendInt (month t) 2 @ ''-'' @ appendInt (day t) 2 @ ''T'' @
     appendInt (hour t) 2 @ '':'' @ appendInt (minute t) 2 @ '':'' @ appendInt (second t) 2 @
     ''.'' @ take 3 (appendInt (nanosecond t) 9) @ ''Z''"
  by (simp add: messageTimestampDateFormat_def format_head_def isDigit_def)

lemma digits_match:
  "list_all isDigit ds \<Longrightarrow> length ds = n \<Longrightarrow> c \<in> set ''YMDHms'' \<Longrightarrow>
   matches_pattern (replicate n c) ds"
  by (auto simp: matches_pattern_def pattern_char_def list_all2_conv_all_nth list_all_length)

lemma literal_match: "c \<notin> set ''YMDHms'' \<Longrightarrow> matches_pattern [c] [c]"
  by (simp add: matches_pattern_def pattern_char_def)

lemma matches_append:
  "matches_pattern p s \<Longrightarrow> matches_pattern q r \<Longrightarrow> matches_pattern (p @ q) (s @ r)"
  unfolding matches_pattern_def by (rule list_all2_appendI)

lemma timestamp_shape:
  assumes "wall_clock t"
  shows "matches_pattern ''YYYY-MM-DDTHH:mm:ss.sssZ'' (Format t messageTimestampDateFormat)"
proof -
  have y: "matches_pattern (replicate 4 (CHR ''Y'')) (appendInt (year t) 4)"
    using assms by (intro digits_match appendInt_digits length_appendInt) (simp_all add: wall_clock_def)
  have mo: "matches_pattern (replicate 2 (CHR ''M'')) (appendInt (month t) 2)"
    using assms by (intro digits_match appendInt_digits length_appendInt) (simp_all add: wall_clock_def)
  have d: "matches_pattern (replicate 2 (CHR ''D'')) (appendInt (day t) 2)"
    using assms by (intro digits_match appendInt_digits length_appendInt) (simp_all add: wall_clock_def)
  have h: "matches_pattern (replicate 2 (CHR ''H'')) (appendInt (hour t) 2)"
    using assms by (intro digits_match appendInt_digits length_appendInt) (simp_all add: wall_clock_def)
  have mi: "matches_pattern (replicate 2 (CHR ''m'')) (appendInt (minute t) 2)"
    using assms by (intro digits_match appendInt_digits length_appendInt) (simp_all add: wall_clock_def)
  have s: "matches_pattern (replicate 2 (CHR ''s'')) (appendInt (second t) 2)"
    using assms by (intro digits_match appendInt_digits length_appendInt) (simp_all add: wall_clock_def)
  have "length (appendInt (nanosecond t) 9) = 9"
    using assms by (intro length_appendInt) (simp_all add: wall_clock_def)
  moreover have "list_all isDigit (take 3 (appendInt (nanosecond t) 9))"
    using appendInt_digits [of "nanosecond t" 9] by (auto simp: list_all_iff dest: in_set_takeD)
  ultimately have f: "matches_pattern (replicate 3 (CHR ''s'')) (take 3 (appendInt (nanosecond t) 9))"
    by (intro digits_match) simp_all
  have "matches_pattern
          (replicate 4 (CHR ''Y'') @ ''-'' @ replicate 2 (CHR ''M'') @ ''-'' @ replicate 2 (CHR ''D'') @
           ''T'' @ replicate 2 (CHR ''H'') @ '':'' @ replicate 2 (CHR ''m'') @ '':'' @
           replicate 2 (CHR ''s'') @ ''.'' @ replicate 3 (CHR ''s'') @ ''Z'')
          (Format t messageTimestampDateFormat)"
    unfolding Format_layout
    by (intro matches_append y mo d h mi s f literal_match) simp_all
  then show ?thesis
    by (simp add: numeral_3_eq_3 numeral_2_eq_2 eval_nat_numeral)
qed

section \<open>The outbound headers\<close>



text \<open>
  What the deriver does for the two generated headers. Every call takes the next value of
  the UUID generator as \<^verbatim>\<open>Message-Id\<close>, whatever the inbound headers are, and moves the
  generator on. Every call reads the clock anew, and the \<^verbatim>\<open>Message-Timestamp\<close> is that
  reading in the layout of the constant: the digits of the date and the clock as the reading
  has them in its own location, whatever its offset is, and the letter \<^verbatim>\<open>Z\<close> of the layout.
  For a reading between the years 0 and 9999 the digits have the shape of the pattern.
\<close>

lemma Format_ignores_offset: "Format (t\<lparr>offset := z\<rparr>) l = Format t l"
proof (induction t l rule: Format.induct)
  case (1 t)
  then show ?case by simp
next
  case (2 t c l)
  have h: "format_head (t\<lparr>offset := z\<rparr>) c l = format_head t c l"
    by (simp add: format_head_def)
  show ?case
    using "2.IH" by (simp add: h)
qed

lemma generated_headers:
  "fst (buildConceptAnnotationsHeader h w) ''Message-Id'' = Some (uuids w (uuids_taken w)) \<and>
   fst (buildConceptAnnotationsHeader h' w) ''Message-Id'' =
     fst (buildConceptAnnotationsHeader h w) ''Message-Id'' \<and>
   uuids (snd (buildConceptAnnotationsHeader h w)) = uuids w \<and>
   uuids_taken (snd (buildConceptAnnotationsHeader h w)) = Suc (uuids_taken w) \<and>
   fst (buildConceptAnnotationsHeader h w) ''Message-Timestamp'' =
     Some (Format (clock w (clock_read w)) messageTimestampDateFormat) \<and>
   clock (snd (buildConceptAnnotationsHeader h w)) = clock w \<and>
   clock_read (snd (buildConceptAnnotationsHeader h w)) = Suc (clock_read w) \<and>
   (wall_clock (clock w (clock_read w)) \<longrightarrow>
      matches_pattern ''YYYY-MM-DDTHH:mm:ss.sssZ''
        (Format (clock w (clock_read w)) messageTimestampDateFormat))"
  using timestamp_shape [of "clock w (clock_read w)"]
  by (simp add: buildConceptAnnotationsHeader_def NewV4_String_def Now_def)

text \<open>
  Claim C6. The claim has the timestamp in the UTC pattern, whose final \<^verbatim>\<open>Z\<close> says that the
  digits are those of UTC. The deriver formats the reading of \<^verbatim>\<open>time.Now()\<close> as it is, in the
  local zone of the process, and does not call \<^verbatim>\<open>UTC\<close> on it. In a process one hour east of
  UTC, at five past nine local time, the header is \<^verbatim>\<open>2019-03-07T09:05:59.012Z\<close>, while the
  same instant in UTC, in the same layout, is \<^verbatim>\<open>2019-03-07T08:05:59.012Z\<close>: the header names
  an instant one hour after the reading.
\<close>

theorem timestamp_is_local_time_marked_utc:
  "offset (clock offset_world (clock_read offset_world)) = 3600 \<and>
   fst (buildConceptAnnotationsHeader example_headers offset_world) ''Message-Timestamp'' =
     Some ''2019-03-07T09:05:59.012Z'' \<and>
   Format (UTC (clock offset_world (clock_read offset_world))) messageTimestampDateFormat =
     ''2019-03-07T08:05:59.012Z'' \<and>
   fst (buildConceptAnnotationsHeader example_headers offset_world) ''Message-Timestamp'' \<noteq>
     Some (Format (UTC (clock offset_world (clock_read offset_world))) messageTimestampDateFormat)"
proof -
  have o: "offset (clock offset_world (clock_read offset_world)) = 3600"
    by (simp add: offset_world_def)
  have l: "Format (clock offset_world (clock_read offset_world)) messageTimestampDateFormat =
             ''2019-03-07T09:05:59.012Z''"
    by (simp add: offset_world_def messageTimestampDateFormat_def format_head_def isDigit_def
          appendInt_def decimal_small decimal_large)
  have u: "UTC (clock offset_world (clock_read offset_world)) =
             \<lparr>year = 2019, month = 3, day = 7, hour = 8, minute = 5, second = 59,
              nanosecond = 12345678, offset = 0\<rparr>"
    by (simp add: offset_world_def UTC_def)
  have g: "Format (UTC (clock offset_world (clock_read offset_world))) messageTimestampDateFormat =
             ''2019-03-07T08:05:59.012Z''"
    unfolding u
    by (simp add: messageTimestampDateFormat_def format_head_def isDigit_def
          appendInt_def decimal_small decimal_large)
  have h: "fst (buildConceptAnnotationsHeader example_headers offset_world) ''Message-Timestamp'' =
             Some (Format (clock offset_world (clock_read offset_world)) messageTimestampDateFormat)"
    by (simp add: buildConceptAnnotationsHeader_def NewV4_String_def Now_def)
  show ?thesis
    using o l g h by simp
qed

section \<open>An event without annotations\<close>

text \<open>
  Claim C7. When the origin is whitelisted and the body decodes to an event whose list of
  annotations is empty (or nil), the handler goes on as for any other event: it calls the
  producer exactly once, with a body that Go's encoder writes as the UUID of the event and
  an empty array of annotations, not \<^verbatim>\<open>null\<close>, and it returns what the producer returns, which
  is nil when the producer accepts the message.
\<close>

theorem empty_annotations_are_sent:
  assumes "whitelist mapper (index (Headers msg) ''Origin-System-Id'')"
    and "Unmarshal json (Body msg) = Inr ev"
    and "elems (PacMetadataPublishEvent.Annotations ev) = []"
    and "Marshal json = json_Marshal"
  shows "sent (snd (HandleMessage json mapper msg w)) =
           sent w @
           [\<lparr>Headers = fst (buildConceptAnnotationsHeader (Headers msg) w),
             Body = ''{\"uuid\":'' @ marshal_string (PacMetadataPublishEvent.UUID ev) @
                    '',\"annotations\":[]}''\<rparr>] \<and>
         fst (HandleMessage json mapper msg w) =
           fst (messageProducer mapper (producer w)
                 \<lparr>Headers = fst (buildConceptAnnotationsHeader (Headers msg) w),
                  Body = ''{\"uuid\":'' @ marshal_string (PacMetadataPublishEvent.UUID ev) @
                         '',\"annotations\":[]}''\<rparr>)"
proof -
  have ma: "Marshal json
              \<lparr>UUID = PacMetadataPublishEvent.UUID ev,
               Annotations =
                 Slice (List.map_filter buildAnnotation
                          (elems (PacMetadataPublishEvent.Annotations ev)))\<rparr> =
            Inr (''{\"uuid\":'' @ marshal_string (PacMetadataPublishEvent.UUID ev) @
                 '',\"annotations\":[]}'')"
    using assms(3,4) by (simp add: List.map_filter_simps marshal_eval)
  show ?thesis
    using HandleMessage_sent [OF assms(1) assms(2) ma, of w] by simp
qed

theorem empty_annotations_are_sent_witness:
  "whitelist example_mapper
     (index (Headers \<lparr>Headers = example_headers, Body = ''{\"uuid\":\"u1\",\"annotations\":[]}''\<rparr>)
        ''Origin-System-Id'') \<and>
   Unmarshal go_json (Body \<lparr>Headers = example_headers, Body = ''{\"uuid\":\"u1\",\"annotations\":[]}''\<rparr>) =
     Inr \<lparr>PacMetadataPublishEvent.UUID = ''u1'', PacMetadataPublishEvent.Annotations = Slice []\<rparr> \<and>
   Marshal go_json = json_Marshal \<and>
   map Body (sent (snd (HandleMessage go_json example_mapper
     \<lparr>Headers = example_headers, Body = ''{\"uuid\":\"u1\",\"annotations\":[]}''\<rparr> example_world))) =
     [''{\"uuid\":\"u1\",\"annotations\":[]}''] \<and>
   fst (HandleMessage go_json example_mapper
     \<lparr>Headers = example_headers, Body = ''{\"uuid\":\"u1\",\"annotations\":[]}''\<rparr> example_world) = None"
proof -
  have wl: "whitelist example_mapper
     (index (Headers \<lparr>Headers = example_headers, Body = ''{\"uuid\":\"u1\",\"annotations\":[]}''\<rparr>)
        ''Origin-System-Id'')"
    by (simp add: example_mapper_def example_headers_def index_def)
  have un: "Unmarshal go_json
              (Body \<lparr>Headers = example_headers, Body = ''{\"uuid\":\"u1\",\"annotations\":[]}''\<rparr>) =
            Inr \<lparr>PacMetadataPublishEvent.UUID = ''u1'',
                 PacMetadataPublishEvent.Annotations = Slice []\<rparr>"
    by (simp add: go_json_def json_Unmarshal_def scan_eval names_def lower_def)
  have em: "elems (PacMetadataPublishEvent.Annotations
              \<lparr>PacMetadataPublishEvent.UUID = ''u1'',
               PacMetadataPublishEvent.Annotations = Slice []\<rparr>) = []"
    by simp
  have ma: "Marshal go_json = json_Marshal"
    by (simp add: go_json_def)
  show ?thesis
    using empty_annotations_are_sent [OF wl un em ma, of example_world] wl un ma
    by (simp add: example_world_def example_mapper_def marshal_string_def encode_head_def byte_def
          quote_def backslash_def)
qed

section \<open>Missing headers\<close>

text \<open>
  Claim C10. A header that the inbound message does not have is read as the empty string,
  and the handler does with the message exactly what it does with the same message in which
  that header is present and empty. In particular, without \<^verbatim>\<open>Origin-System-Id\<close> the whitelist
  is matched against the empty string, and a missing \<^verbatim>\<open>Content-Type\<close>, \<^verbatim>\<open>X-Request-Id\<close> or
  \<^verbatim>\<open>Origin-System-Id\<close> is present and empty in the outbound headers.
\<close>

theorem missing_header_is_empty:
  assumes "Headers msg k = None"
  shows "index (Headers msg) k = [] \<and>
         HandleMessage json mapper (msg\<lparr>Headers := (Headers msg)(k \<mapsto> [])\<rparr>) w =
           HandleMessage json mapper msg w \<and>
         (k = ''Origin-System-Id'' \<longrightarrow>
            whitelist mapper (index (Headers msg) ''Origin-System-Id'') = whitelist mapper []) \<and>
         (k = ''Origin-System-Id'' \<and> \<not> whitelist mapper [] \<longrightarrow>
            fst (HandleMessage json mapper msg w) = None \<and>
            sent (snd (HandleMessage json mapper msg w)) = sent w) \<and>
         (k \<in> {''Content-Type'', ''X-Request-Id'', ''Origin-System-Id''} \<longrightarrow>
            fst (buildConceptAnnotationsHeader (Headers msg) w) k = Some [])"
proof -
  have e: "index (Headers msg) k = []"
    using assms by (simp add: index_def)
  have i: "\<And>k'. index ((Headers msg)(k \<mapsto> [])) k' = index (Headers msg) k'"
    using assms by (simp add: index_def)
  have b: "\<And>w'. buildConceptAnnotationsHeader ((Headers msg)(k \<mapsto> [])) w' =
                 buildConceptAnnotationsHeader (Headers msg) w'"
    by (simp add: buildConceptAnnotationsHeader_def i)
  have h: "HandleMessage json mapper (msg\<lparr>Headers := (Headers msg)(k \<mapsto> [])\<rparr>) w =
           HandleMessage json mapper msg w"
    by (simp add: HandleMessage_def Let_def i b
          cong: sum.case_cong option.case_cong prod.case_cong if_cong)
  have m: "k = ''Origin-System-Id'' \<longrightarrow>
            whitelist mapper (index (Headers msg) ''Origin-System-Id'') = whitelist mapper []"
    using e by auto
  have s: "k = ''Origin-System-Id'' \<and> \<not> whitelist mapper [] \<longrightarrow>
            fst (HandleMessage json mapper msg w) = None \<and>
            sent (snd (HandleMessage json mapper msg w)) = sent w"
    using e by (auto simp: HandleMessage_skip)
  have o: "k \<in> {''Content-Type'', ''X-Request-Id'', ''Origin-System-Id''} \<longrightarrow>
            fst (buildConceptAnnotationsHeader (Headers msg) w) k = Some []"
    using e by (auto simp: buildConceptAnnotationsHeader_def NewV4_String_def Now_def)
  from e h m s o show ?thesis
    by (intro conjI)
qed

theorem missing_header_is_empty_witness:
  "Headers \<lparr>Headers = Map.empty, Body = example_body\<rparr> ''Origin-System-Id'' = None \<and>
   \<not> whitelist example_mapper [] \<and>
   ''Origin-System-Id'' \<in> {''Content-Type'', ''X-Request-Id'', ''Origin-System-Id''} \<and>
   index (Headers \<lparr>Headers = Map.empty, Body = example_body\<rparr>) ''Origin-System-Id'' = [] \<and>
   fst (HandleMessage go_json example_mapper \<lparr>Headers = Map.empty, Body = example_body\<rparr>
          example_world) = None \<and>
   sent (snd (HandleMessage go_json example_mapper \<lparr>Headers = Map.empty, Body = example_body\<rparr>
          example_world)) = [] \<and>
   fst (buildConceptAnnotationsHeader (Headers \<lparr>Headers = Map.empty, Body = example_body\<rparr>)
          example_world) ''Origin-System-Id'' = Some []"
  using missing_header_is_empty
          [of "\<lparr>Headers = Map.empty, Body = example_body\<rparr>" "''Origin-System-Id''" go_json
              example_mapper example_world]
  by (simp add: example_mapper_def example_world_def)

end
